theory Spec2Isabelle
  imports
    Complex_Main
    "HOL-Library.Sublist"
    "HOL-Library.AList"
    "HOL-Library.Multiset"
    "HOL-Library.Char_ord"
    "HOL-Library.List_Lexorder"
begin

section \<open>The expense tracker of \<^verbatim>\<open>main.js\<close>\<close>

text \<open>
  The program keeps a list of expense records in the browser's \<^verbatim>\<open>localStorage\<close>
  and derives filtered, sorted and aggregated views from it. This theory embeds the
  record store, the mutation operations, the query pipeline and the export/import pair.

  Conventions of the embedding.
  \<^item> A JavaScript string is a \<^typ>\<open>string\<close>, the bytes of its UTF-8 text; \<^verbatim>\<open><\<close> on
    strings is the lexicographic order of the character codes. Letter case is that of
    ASCII.
  \<^item> A stored amount is an integer; \<^verbatim>\<open>NaN\<close> and the infinities, which \<^verbatim>\<open>parseInt\<close>
    can return, are values of their own, and \<^verbatim>\<open>JSON.stringify\<close> writes them as
    \<^verbatim>\<open>null\<close>.
  \<^item> \<^verbatim>\<open>localStorage\<close> holds, per key, the value that \<^verbatim>\<open>JSON.parse\<close> reads back from
    the stored text, or nothing.
  \<^item> Whatever the program asks of its environment is a parameter of the operation that
    asks: the clock, the random number, whether \<^verbatim>\<open>setItem\<close> succeeds, the answer to
    \<^verbatim>\<open>confirm\<close>, the time value of a date string and the collation of two strings.
  \<^item> A thrown exception is the left injection of a sum.
\<close>

subsection \<open>Values\<close>

datatype error = TypeError

text \<open>What \<^verbatim>\<open>parseInt\<close> returns: an integer, \<^verbatim>\<open>NaN\<close>, or an infinity of either sign.\<close>

datatype number = NaN | Num int | Infinity

text \<open>
  A number as \<^verbatim>\<open>JSON.parse\<close> reads it back: \<^verbatim>\<open>JSON.stringify\<close> writes an integer as
  itself, and \<^verbatim>\<open>NaN\<close> and the infinities as \<^verbatim>\<open>null\<close>.
\<close>

datatype json_number = JNull | JNum int

fun stringify_number :: "number \<Rightarrow> json_number" where
  "stringify_number NaN = JNull"
| "stringify_number (Num n) = JNum n"
| "stringify_number Infinity = JNull"

text \<open>In arithmetic and in comparisons with a number, \<^verbatim>\<open>null\<close> counts as 0.\<close>

fun ToNumber :: "json_number \<Rightarrow> int" where
  "ToNumber JNull = 0"
| "ToNumber (JNum n) = n"

text \<open>\<^verbatim>\<open>ToString\<close> of a property that may be missing.\<close>

fun ToString :: "string option \<Rightarrow> string" where
  "ToString None = ''undefined''"
| "ToString (Some s) = s"

text \<open>\<^verbatim>\<open>v || ''\<close> on a string that may be missing.\<close>

fun or_empty :: "string option \<Rightarrow> string" where
  "or_empty None = []"
| "or_empty (Some s) = s"

text \<open>A string is truthy when it is there and not empty.\<close>

fun truthy :: "string option \<Rightarrow> bool" where
  "truthy None = False"
| "truthy (Some s) = (s \<noteq> [])"

subsection \<open>\<^verbatim>\<open>parseInt(s, 10)\<close>\<close>

text \<open>
  The white space and line terminator characters of ECMAScript, each as the bytes of
  its UTF-8 encoding: the ASCII ones, U+00A0, U+1680, U+2000 to U+200A, U+2028, U+2029,
  U+202F, U+205F, U+3000 and U+FEFF.
\<close>

definition whiteSpaces :: "string list" where
  "whiteSpaces =
     [[CHR 0x09], [CHR 0x0A], [CHR 0x0B], [CHR 0x0C], [CHR 0x0D], [CHR 0x20],
      [CHR 0xC2, CHR 0xA0],
      [CHR 0xE1, CHR 0x9A, CHR 0x80],
      [CHR 0xE2, CHR 0x80, CHR 0x80], [CHR 0xE2, CHR 0x80, CHR 0x81],
      [CHR 0xE2, CHR 0x80, CHR 0x82], [CHR 0xE2, CHR 0x80, CHR 0x83],
      [CHR 0xE2, CHR 0x80, CHR 0x84], [CHR 0xE2, CHR 0x80, CHR 0x85],
      [CHR 0xE2, CHR 0x80, CHR 0x86], [CHR 0xE2, CHR 0x80, CHR 0x87],
      [CHR 0xE2, CHR 0x80, CHR 0x88], [CHR 0xE2, CHR 0x80, CHR 0x89],
      [CHR 0xE2, CHR 0x80, CHR 0x8A],
      [CHR 0xE2, CHR 0x80, CHR 0xA8], [CHR 0xE2, CHR 0x80, CHR 0xA9],
      [CHR 0xE2, CHR 0x80, CHR 0xAF],
      [CHR 0xE2, CHR 0x81, CHR 0x9F],
      [CHR 0xE3, CHR 0x80, CHR 0x80],
      [CHR 0xEF, CHR 0xBB, CHR 0xBF]]"

text \<open>The number of bytes of the white space character that a string starts with, or 0.\<close>

definition leadingWhiteSpace :: "string \<Rightarrow> nat" where
  "leadingWhiteSpace s =
     (case find (\<lambda>w. prefix w s) whiteSpaces of None \<Rightarrow> 0 | Some w \<Rightarrow> length w)"

function skipWhiteSpace :: "string \<Rightarrow> string" where
  "skipWhiteSpace s =
     (if leadingWhiteSpace s = 0 then s
      else skipWhiteSpace (drop (leadingWhiteSpace s) s))"
  by pat_completeness auto
termination
proof (relation "measure length")
  show "wf (measure length)" by simp
next
  fix s :: string
  assume "leadingWhiteSpace s \<noteq> 0"
  then have "0 < leadingWhiteSpace s" by simp
  moreover have "leadingWhiteSpace s \<le> length s"
    by (auto simp: leadingWhiteSpace_def find_Some_iff prefix_length_le split: option.splits)
  ultimately show "(drop (leadingWhiteSpace s) s, s) \<in> measure length"
    by simp
qed

declare skipWhiteSpace.simps [simp del]

definition isDigit :: "char \<Rightarrow> bool" where
  "isDigit c = (c \<in> set ''0123456789'')"

definition digitValue :: "char \<Rightarrow> nat" where
  "digitValue c = of_char c - 48"

definition digitsValue :: "string \<Rightarrow> nat" where
  "digitsValue z = foldl (\<lambda>v c. 10 * v + digitValue c) 0 z"

text \<open>
  A number of the program is a double. A natural number below \<open>2 ^ 53\<close> is one; a larger
  one is rounded to 53 significant bits, a tie to the even neighbour. \<open>bits\<close> is the
  number of binary digits.
\<close>

fun bits :: "nat \<Rightarrow> nat" where
  "bits n = (if n = 0 then 0 else Suc (bits (n div 2)))"

declare bits.simps [simp del]

definition toDouble :: "nat \<Rightarrow> nat" where
  "toDouble n =
     (if n < 2 ^ 53 then n
      else let e = bits n - 53;
               q = n div 2 ^ e;
               r = n mod 2 ^ e;
               h = 2 ^ (e - 1)
           in (if r < h \<or> (r = h \<and> even q) then q else q + 1) * 2 ^ e)"

text \<open>
  Leading white space is skipped, one sign is read, then the longest run of decimal
  digits; with no digit the result is \<^verbatim>\<open>NaN\<close>. Radix 10 strips no \<^verbatim>\<open>0x\<close>. The digits
  are read as the nearest double, which from \<open>2 ^ 1024\<close> on is an infinity. (Beyond twenty
  significant digits ECMAScript lets an implementation round less exactly.)
\<close>

definition parseInt :: "string \<Rightarrow> number" where
  "parseInt s =
     (let t = skipWhiteSpace s;
          neg = (t \<noteq> [] \<and> hd t = CHR ''-'');
          u = (if t \<noteq> [] \<and> (hd t = CHR ''-'' \<or> hd t = CHR ''+'') then tl t else t);
          z = takeWhile isDigit u;
          n = toDouble (digitsValue z)
      in if z = [] then NaN
         else if 2 ^ 1024 \<le> n then Infinity
         else Num (if neg then - int n else int n))"

subsection \<open>\<^verbatim>\<open>toLowerCase\<close> and \<^verbatim>\<open>includes\<close>\<close>

definition toLowerChar :: "char \<Rightarrow> char" where
  "toLowerChar c =
     (case map_of (zip ''ABCDEFGHIJKLMNOPQRSTUVWXYZ'' ''abcdefghijklmnopqrstuvwxyz'') c of
        None \<Rightarrow> c
      | Some l \<Rightarrow> l)"

definition toLowerCase :: "string \<Rightarrow> string" where
  "toLowerCase s = map toLowerChar s"

fun String_includes :: "string \<Rightarrow> string \<Rightarrow> bool" where
  "String_includes [] t = (t = [])"
| "String_includes (c # s) t = (prefix t (c # s) \<or> String_includes s t)"

subsection \<open>The data model\<close>

text \<open>
  An expense record as it is stored. \<^verbatim>\<open>memo\<close> may be missing from a record (the
  program itself reads it as \<^verbatim>\<open>expense.memo || ''\<close> when it fills the edit form), and
  \<^verbatim>\<open>updatedAt\<close> is there only after an update.
\<close>

record expense =
  id' :: string
  date :: string
  category :: string
  amount :: json_number
  memo :: "string option"
  createdAt :: nat
  updatedAt :: "nat option"

text \<open>The form data handed to \<^verbatim>\<open>addExpense\<close>: every field is the text of an input.\<close>

record expenseData =
  date_d :: string
  category_d :: string
  amount_d :: string
  memo_d :: "string option"

text \<open>The data handed to \<^verbatim>\<open>updateExpense\<close>: any of the properties may be missing.\<close>

record updatedData =
  date_u :: "string option"
  category_u :: "string option"
  amount_u :: "string option"
  memo_u :: "string option"

record settings =
  currency :: string
  dateFormat :: string
  defaultCategory :: string

text \<open>
  The defaults of the source are Japanese words; they stand here as their UTF-8 bytes.
\<close>

definition DEFAULT_CATEGORIES :: "string list" where
  "DEFAULT_CATEGORIES =
     [[CHR 0xE9, CHR 0xA3, CHR 0x9F, CHR 0xE8, CHR 0xB2, CHR 0xBB],
      [CHR 0xE4, CHR 0xBA, CHR 0xA4, CHR 0xE9, CHR 0x80, CHR 0x9A, CHR 0xE8, CHR 0xB2, CHR 0xBB],
      [CHR 0xE5, CHR 0xA8, CHR 0xAF, CHR 0xE6, CHR 0xA5, CHR 0xBD],
      [CHR 0xE6, CHR 0x97, CHR 0xA5, CHR 0xE7, CHR 0x94, CHR 0xA8, CHR 0xE5, CHR 0x93, CHR 0x81],
      [CHR 0xE5, CHR 0x85, CHR 0x89, CHR 0xE7, CHR 0x86, CHR 0xB1, CHR 0xE8, CHR 0xB2, CHR 0xBB],
      [CHR 0xE3, CHR 0x81, CHR 0x9D, CHR 0xE3, CHR 0x81, CHR 0xAE, CHR 0xE4, CHR 0xBB, CHR 0x96]]"

definition DEFAULT_SETTINGS :: settings where
  "DEFAULT_SETTINGS =
     \<lparr>currency = [CHR 0xC2, CHR 0xA5],
      dateFormat = ''YYYY-MM-DD'',
      defaultCategory =
        [CHR 0xE3, CHR 0x81, CHR 0x9D, CHR 0xE3, CHR 0x81, CHR 0xAE, CHR 0xE4, CHR 0xBB, CHR 0x96]\<rparr>"

subsection \<open>The record store\<close>

text \<open>The three keys of \<^verbatim>\<open>localStorage\<close>; \<open>None\<close> is a key that was never written.\<close>

record storage =
  EXPENSES :: "expense list option"
  CATEGORIES :: "string list option"
  SETTINGS :: "settings option"

definition loadExpenses :: "storage \<Rightarrow> expense list" where
  "loadExpenses st = (case EXPENSES st of None \<Rightarrow> [] | Some es \<Rightarrow> es)"

text \<open>
  \<^verbatim>\<open>setItem\<close> may throw (the quota is exceeded); \<^verbatim>\<open>saveExpenses\<close> catches that,
  alerts, and leaves the store as it was. \<open>ok\<close> says that \<^verbatim>\<open>setItem\<close> succeeded.
\<close>

definition saveExpenses :: "bool \<Rightarrow> expense list \<Rightarrow> storage \<Rightarrow> storage" where
  "saveExpenses ok es st = (if ok then st\<lparr>EXPENSES := Some es\<rparr> else st)"

definition loadCategories :: "storage \<Rightarrow> string list" where
  "loadCategories st = (case CATEGORIES st of None \<Rightarrow> DEFAULT_CATEGORIES | Some cs \<Rightarrow> cs)"

definition saveCategories :: "bool \<Rightarrow> string list \<Rightarrow> storage \<Rightarrow> storage" where
  "saveCategories ok cs st = (if ok then st\<lparr>CATEGORIES := Some cs\<rparr> else st)"

definition loadSettings :: "storage \<Rightarrow> settings" where
  "loadSettings st = (case SETTINGS st of None \<Rightarrow> DEFAULT_SETTINGS | Some s \<Rightarrow> s)"

subsection \<open>Mutation operations\<close>

text \<open>\<^verbatim>\<open>Number.prototype.toString(36)\<close> on a natural number.\<close>

definition digit36 :: "nat \<Rightarrow> char" where
  "digit36 d = ''0123456789abcdefghijklmnopqrstuvwxyz'' ! d"

fun toString36 :: "nat \<Rightarrow> string" where
  "toString36 n =
     (if n < 36 then [digit36 n] else toString36 (n div 36) @ [digit36 (n mod 36)])"

declare toString36.simps [simp del]

text \<open>
  \<open>now\<close> is \<^verbatim>\<open>Date.now()\<close> and \<open>rnd\<close> is \<^verbatim>\<open>Math.random().toString(36)\<close>, of which
  \<^verbatim>\<open>substr(2)\<close> drops the leading \<^verbatim>\<open>0.\<close>
\<close>

definition generateId :: "nat \<Rightarrow> string \<Rightarrow> string" where
  "generateId now rnd = toString36 now @ drop 2 rnd"

text \<open>
  \<open>now\<close> and \<open>rnd\<close> feed \<^verbatim>\<open>generateId\<close>, \<open>now'\<close> is the later \<^verbatim>\<open>Date.now()\<close> of
  \<^verbatim>\<open>createdAt\<close>. The new record is written as \<^verbatim>\<open>JSON.stringify\<close> writes it.
\<close>

definition addExpense ::
  "nat \<Rightarrow> string \<Rightarrow> nat \<Rightarrow> bool \<Rightarrow> expenseData \<Rightarrow> storage \<Rightarrow> bool \<times> storage" where
  "addExpense now rnd now' ok expenseData st =
     (let expenses = loadExpenses st;
          newExpense = \<lparr>id' = generateId now rnd,
                        date = date_d expenseData,
                        category = category_d expenseData,
                        amount = stringify_number (parseInt (amount_d expenseData)),
                        memo = Some (or_empty (memo_d expenseData)),
                        createdAt = now',
                        updatedAt = None\<rparr>
      in (True, saveExpenses ok (expenses @ [newExpense]) st))"

text \<open>\<^verbatim>\<open>findIndex\<close>: the first index whose record has the id, or nothing for \<^verbatim>\<open>-1\<close>.\<close>

fun findIndex :: "string \<Rightarrow> expense list \<Rightarrow> nat option" where
  "findIndex i [] = None"
| "findIndex i (e # es) =
     (if id' e = i then Some 0 else map_option Suc (findIndex i es))"

text \<open>
  The object literal of \<^verbatim>\<open>updateExpense\<close>: the old record, the properties of
  \<^verbatim>\<open>updatedData\<close> spread over it, then \<^verbatim>\<open>amount\<close> and \<^verbatim>\<open>updatedAt\<close> set anew.
\<close>

definition merge :: "expense \<Rightarrow> updatedData \<Rightarrow> nat \<Rightarrow> expense" where
  "merge e updatedData now =
     \<lparr>id' = id' e,
      date = (case date_u updatedData of None \<Rightarrow> date e | Some d \<Rightarrow> d),
      category = (case category_u updatedData of None \<Rightarrow> category e | Some c \<Rightarrow> c),
      amount = stringify_number (parseInt (ToString (amount_u updatedData))),
      memo = (case memo_u updatedData of None \<Rightarrow> memo e | Some m \<Rightarrow> Some m),
      createdAt = createdAt e,
      updatedAt = Some now\<rparr>"

definition updateExpense ::
  "nat \<Rightarrow> bool \<Rightarrow> string \<Rightarrow> updatedData \<Rightarrow> storage \<Rightarrow> bool \<times> storage" where
  "updateExpense now ok i updatedData st =
     (let expenses = loadExpenses st
      in case findIndex i expenses of
           None \<Rightarrow> (False, st)
         | Some index \<Rightarrow>
             (True, saveExpenses ok
                      (expenses[index := merge (expenses ! index) updatedData now]) st))"

definition deleteExpense :: "bool \<Rightarrow> string \<Rightarrow> storage \<Rightarrow> bool \<times> storage" where
  "deleteExpense ok i st =
     (let expenses = loadExpenses st;
          filtered = filter (\<lambda>e. id' e \<noteq> i) expenses
      in (True, saveExpenses ok filtered st))"

text \<open>\<open>None\<close> is the \<^verbatim>\<open>null\<close> of a record that is not there.\<close>

definition getExpenseById :: "string \<Rightarrow> storage \<Rightarrow> expense option" where
  "getExpenseById i st = find (\<lambda>e. id' e = i) (loadExpenses st)"

subsection \<open>Filtering\<close>

text \<open>
  The filter conditions: \<open>None\<close> is \<^verbatim>\<open>null\<close>. The string conditions are tested for
  truthiness, the amount bounds against \<^verbatim>\<open>null\<close>.
\<close>

record filters =
  dateFrom :: "string option"
  dateTo :: "string option"
  category_f :: "string option"
  amountMin :: "int option"
  amountMax :: "int option"
  searchMemo :: "string option"

text \<open>
  The callback of \<^verbatim>\<open>filterExpenses\<close>, test after test. The last test calls
  \<^verbatim>\<open>toLowerCase\<close> on \<^verbatim>\<open>expense.memo\<close>, which throws a \<^verbatim>\<open>TypeError\<close> when the
  record has no memo.
\<close>

definition keep :: "filters \<Rightarrow> expense \<Rightarrow> error + bool" where
  "keep f e =
     (if truthy (dateFrom f) \<and> date e < or_empty (dateFrom f) then Inr False
      else if truthy (dateTo f) \<and> or_empty (dateTo f) < date e then Inr False
      else if truthy (category_f f) \<and> category e \<noteq> or_empty (category_f f) then Inr False
      else if (case amountMin f of None \<Rightarrow> False | Some lo \<Rightarrow> ToNumber (amount e) < lo)
        then Inr False
      else if (case amountMax f of None \<Rightarrow> False | Some hi \<Rightarrow> hi < ToNumber (amount e))
        then Inr False
      else if truthy (searchMemo f) then
        (case memo e of
           None \<Rightarrow> Inl TypeError
         | Some m \<Rightarrow>
             Inr (String_includes (toLowerCase m) (toLowerCase (or_empty (searchMemo f)))))
      else Inr True)"

text \<open>\<^verbatim>\<open>Array.prototype.filter\<close> with a callback that may throw: the first throw ends it.\<close>

fun Array_filter :: "('a \<Rightarrow> error + bool) \<Rightarrow> 'a list \<Rightarrow> error + 'a list" where
  "Array_filter p [] = Inr []"
| "Array_filter p (x # xs) =
     (case p x of
        Inl err \<Rightarrow> Inl err
      | Inr b \<Rightarrow>
          (case Array_filter p xs of
             Inl err \<Rightarrow> Inl err
           | Inr ys \<Rightarrow> Inr (if b then x # ys else ys)))"

definition filterExpenses :: "expense list \<Rightarrow> filters \<Rightarrow> error + expense list" where
  "filterExpenses expenses f = Array_filter (keep f) expenses"

subsection \<open>Sorting\<close>








subsection \<open>Category statistics\<close>











subsection \<open>Export and import\<close>

text \<open>
  The exported document as \<^verbatim>\<open>JSON.parse\<close> reads it: each section may be missing from
  a document that \<^verbatim>\<open>importData\<close> is given.
\<close>

record document =
  expenses :: "expense list option"
  categories :: "string list option"
  settings :: "settings option"
  exportDate :: "string option"

text \<open>\<open>stamp\<close> is \<^verbatim>\<open>new Date().toISOString()\<close>.\<close>

definition exportData :: "string \<Rightarrow> storage \<Rightarrow> document" where
  "exportData stamp st =
     \<lparr>expenses = Some (loadExpenses st),
      categories = Some (loadCategories st),
      settings = Some (loadSettings st),
      exportDate = Some stamp\<rparr>"

text \<open>
  \<open>file\<close> is \<open>None\<close> when \<^verbatim>\<open>JSON.parse\<close> throws, \<open>confirmed\<close> is the answer to
  \<^verbatim>\<open>confirm\<close>, and \<open>ok1\<close>, \<open>ok2\<close>, \<open>ok3\<close> say whether the three \<^verbatim>\<open>setItem\<close> calls
  succeed. The third is not wrapped: its throw ends the import in the outer
  \<^verbatim>\<open>catch\<close>, after the first two sections were written.
\<close>

definition importData ::
  "bool \<Rightarrow> bool \<Rightarrow> bool \<Rightarrow> bool \<Rightarrow> document option \<Rightarrow> storage \<Rightarrow> storage" where
  "importData confirmed ok1 ok2 ok3 file st =
     (case file of
        None \<Rightarrow> st
      | Some data \<Rightarrow>
          (if \<not> confirmed then st
           else
             (let st1 = (case expenses data of
                           None \<Rightarrow> st
                         | Some es \<Rightarrow> saveExpenses ok1 es st);
                  st2 = (case categories data of
                           None \<Rightarrow> st1
                         | Some cs \<Rightarrow> saveCategories ok2 cs st1)
              in (case settings data of
                    None \<Rightarrow> st2
                  | Some v \<Rightarrow> (if ok3 then st2\<lparr>SETTINGS := Some v\<rparr> else st2)))))"

subsection \<open>The filter as the conjunction of its conditions\<close>

text \<open>
  What the filter conditions ask of a record, condition by condition: a date bound or a
  category that is \<^verbatim>\<open>null\<close> or empty asks nothing, an amount bound that is \<^verbatim>\<open>null\<close>
  asks nothing, and the memo search reads a missing memo as the empty string.
\<close>

definition matches :: "filters \<Rightarrow> expense \<Rightarrow> bool" where
  "matches f e =
     ((truthy (dateFrom f) \<longrightarrow> or_empty (dateFrom f) \<le> date e) \<and>
      (truthy (dateTo f) \<longrightarrow> date e \<le> or_empty (dateTo f)) \<and>
      (truthy (category_f f) \<longrightarrow> category e = or_empty (category_f f)) \<and>
      (case amountMin f of None \<Rightarrow> True | Some lo \<Rightarrow> lo \<le> ToNumber (amount e)) \<and>
      (case amountMax f of None \<Rightarrow> True | Some hi \<Rightarrow> ToNumber (amount e) \<le> hi) \<and>
      (truthy (searchMemo f) \<longrightarrow>
         String_includes (toLowerCase (or_empty (memo e)))
           (toLowerCase (or_empty (searchMemo f)))))"

subsection \<open>What sorting and the statistics are measured against\<close>




subsection \<open>Example data\<close>

text \<open>Two records: the second one has no memo.\<close>

definition lunch :: expense where
  "lunch = \<lparr>id' = ''a'', date = ''2024-01-05'', category = ''food'', amount = JNum 1000,
            memo = Some ''Lunch'', createdAt = 1, updatedAt = None\<rparr>"

definition train :: expense where
  "train = \<lparr>id' = ''b'', date = ''2024-01-10'', category = ''transport'', amount = JNum 500,
            memo = None, createdAt = 2, updatedAt = None\<rparr>"

text \<open>A record with a negative amount, as an imported file may hold.\<close>

definition refund :: expense where
  "refund = \<lparr>id' = ''c'', date = ''2024-01-12'', category = ''food'', amount = JNum (- 5),
             memo = Some ''refund'', createdAt = 3, updatedAt = None\<rparr>"



definition store :: storage where
  "store = \<lparr>EXPENSES = Some [lunch, train], CATEGORIES = None, SETTINGS = None\<rparr>"

text \<open>A store with categories and settings of its own.\<close>

definition full_store :: storage where
  "full_store =
     \<lparr>EXPENSES = Some [refund, lunch],
      CATEGORIES = Some [''food'', ''rent''],
      SETTINGS = Some \<lparr>currency = ''EUR'', dateFormat = ''DD.MM.YYYY'',
                        defaultCategory = ''rent''\<rparr>\<rparr>"

definition empty_store :: storage where
  "empty_store = \<lparr>EXPENSES = None, CATEGORIES = None, SETTINGS = None\<rparr>"

definition search :: "string \<Rightarrow> filters" where
  "search t = \<lparr>dateFrom = None, dateTo = None, category_f = None, amountMin = None,
               amountMax = None, searchMemo = Some t\<rparr>"

definition only_transport :: filters where
  "only_transport = \<lparr>dateFrom = None, dateTo = None, category_f = Some ''transport'',
                      amountMin = None, amountMax = None, searchMemo = None\<rparr>"

definition form :: expenseData where
  "form = \<lparr>date_d = ''2024-02-01'', category_d = ''food'', amount_d = ''1200'',
           memo_d = Some ''bento''\<rparr>"

text \<open>Form data with the amount \<^verbatim>\<open>.5\<close>, which \<^verbatim>\<open>validateForm\<close> accepts.\<close>

definition half :: expenseData where
  "half = \<lparr>date_d = ''2024-02-01'', category_d = ''food'', amount_d = ''.5'',
           memo_d = Some ''tea''\<rparr>"

definition memo_only :: updatedData where
  "memo_only = \<lparr>date_u = None, category_u = None, amount_u = None, memo_u = Some ''dinner''\<rparr>"

section \<open>Properties\<close>

subsection \<open>Evaluation\<close>

lemmas parseInt_eval =
  parseInt_def skipWhiteSpace.simps leadingWhiteSpace_def whiteSpaces_def isDigit_def
  digitsValue_def digitValue_def toDouble_def Let_def

lemmas lower_eval = toLowerCase_def toLowerChar_def

lemmas store_eval = loadExpenses_def saveExpenses_def loadCategories_def saveCategories_def
  loadSettings_def

subsection \<open>Substrings\<close>

text \<open>\<^verbatim>\<open>includes\<close> holds of the strings that have the searched text as a contiguous part.\<close>

lemma String_includes_sublist: "String_includes s t \<longleftrightarrow> sublist t s"
  by (induction s) (simp_all add: sublist_Cons_right)

subsection \<open>Lookup by id\<close>

lemma findIndex_None: "findIndex i es = None \<longleftrightarrow> i \<notin> id' ` set es"
  by (induction es) auto

lemma findIndex_Some: "findIndex i es = Some k \<Longrightarrow> k < length es \<and> id' (es ! k) = i"
  by (induction es arbitrary: k) (auto split: if_splits)

lemma find_append_fresh:
  "i \<notin> id' ` set es \<Longrightarrow>
   find (\<lambda>e. id' e = i) (es @ [x]) = (if id' x = i then Some x else None)"
  by (induction es) auto

lemma find_filter_None: "find (\<lambda>e. id' e = i) (filter (\<lambda>e. id' e \<noteq> i) es) = None"
  by (induction es) auto

subsection \<open>Adding a record\<close>

text \<open>
  A text of decimal digits that writes a number below \<open>2 ^ 53\<close> is read as that number.
\<close>

lemma digit_no_sign: "isDigit c \<Longrightarrow> c \<noteq> CHR ''-'' \<and> c \<noteq> CHR ''+''"
  by (auto simp: isDigit_def)

lemma prefix_digit: "isDigit c \<Longrightarrow> w \<in> set whiteSpaces \<Longrightarrow> \<not> prefix w (c # t)"
  by (auto simp: isDigit_def whiteSpaces_def)

lemma leadingWhiteSpace_digit:
  assumes "isDigit c"
  shows "leadingWhiteSpace (c # t) = 0"
proof -
  have "find (\<lambda>w. prefix w (c # t)) whiteSpaces = None"
    using prefix_digit [OF assms] by (simp add: find_None_iff)
  then show ?thesis
    by (simp add: leadingWhiteSpace_def)
qed

lemma skip_digit: "isDigit c \<Longrightarrow> skipWhiteSpace (c # t) = c # t"
  by (subst skipWhiteSpace.simps) (simp add: leadingWhiteSpace_digit)


lemma parseInt_digits:
  assumes "s \<noteq> []" and "list_all isDigit s" and "digitsValue s < 2 ^ 53"
  shows "parseInt s = Num (int (digitsValue s))"
proof -
  obtain c t where s: "s = c # t"
    using assms(1) by (cases s) auto
  then have c: "isDigit c" and t: "list_all isDigit t"
    using assms(2) by simp_all
  have tw: "takeWhile isDigit (c # t) = c # t"
    using c t by (simp add: list_all_iff)
  have sk: "skipWhiteSpace (c # t) = c # t"
    using c by (rule skip_digit)
  have exact: "toDouble (digitsValue (c # t)) = digitsValue (c # t)"
    using assms(3) by (simp add: toDouble_def s)
  have "(2::nat) ^ 53 < 2 ^ 1024"
    by (rule power_strict_increasing) simp_all
  with assms(3) have small: "\<not> 2 ^ 1024 \<le> digitsValue (c # t)"
    by (simp add: s)
  have head: "hd (c # t) \<noteq> CHR ''-''" "hd (c # t) \<noteq> CHR ''+''"
    using digit_no_sign [OF c] by simp_all
  show ?thesis
    unfolding s parseInt_def Let_def sk
    using head by (simp only: tw exact small if_False list.simps simp_thms)
qed

text \<open>
  What \<^verbatim>\<open>addExpense\<close> stores when the generated id is new to the store and the write
  succeeds: the date and the category of the input, what \<^verbatim>\<open>JSON.stringify\<close> keeps of
  \<^verbatim>\<open>parseInt\<close> of the amount, and the memo, or the empty string for no memo.
\<close>

lemma addExpense_stores:
  assumes "generateId now rnd \<notin> id' ` set (loadExpenses st)"
  shows "getExpenseById (generateId now rnd) (snd (addExpense now rnd now' True d st)) =
           Some \<lparr>id' = generateId now rnd, date = date_d d, category = category_d d,
                 amount = stringify_number (parseInt (amount_d d)),
                 memo = Some (case memo_d d of None \<Rightarrow> [] | Some m \<Rightarrow> m),
                 createdAt = now', updatedAt = None\<rparr>"
  using assms
  by (cases "memo_d d")
    (simp_all add: addExpense_def getExpenseById_def store_eval find_append_fresh)

lemma addExpense_stores_digits:
  assumes "generateId now rnd \<notin> id' ` set (loadExpenses st)"
    and "amount_d d \<noteq> []" and "list_all isDigit (amount_d d)"
    and "digitsValue (amount_d d) < 2 ^ 53"
  shows "map_option amount
           (getExpenseById (generateId now rnd) (snd (addExpense now rnd now' True d st)))
         = Some (JNum (int (digitsValue (amount_d d))))"
  using addExpense_stores [OF assms(1)] parseInt_digits [OF assms(2-4)] by simp

lemma addExpense_example:
  "getExpenseById ''1z4fz'' (snd (addExpense 71 ''0.4fz'' 72 True form store)) =
     Some \<lparr>id' = ''1z4fz'', date = ''2024-02-01'', category = ''food'', amount = JNum 1200,
           memo = Some ''bento'', createdAt = 72, updatedAt = None\<rparr>"
  by (simp add: addExpense_def getExpenseById_def store_eval store_def lunch_def train_def
      form_def generateId_def toString36.simps digit36_def parseInt_eval)

text \<open>
  C4. The amount \<^verbatim>\<open>.5\<close> is a positive number and passes \<^verbatim>\<open>validateForm\<close>, but
  \<^verbatim>\<open>parseInt\<close> finds no digit at its head: \<^verbatim>\<open>addExpense\<close> followed by
  \<^verbatim>\<open>getExpenseById\<close> returns a record whose amount is \<^verbatim>\<open>null\<close>, not an integer.
\<close>

theorem addExpense_fraction_stored_null:
  "parseInt ''.5'' = NaN \<and>
   getExpenseById ''1z4fz'' (snd (addExpense 71 ''0.4fz'' 72 True half store)) =
     Some \<lparr>id' = ''1z4fz'', date = ''2024-02-01'', category = ''food'', amount = JNull,
           memo = Some ''tea'', createdAt = 72, updatedAt = None\<rparr>"
  by (simp add: addExpense_def getExpenseById_def store_eval store_def lunch_def train_def
      half_def generateId_def toString36.simps digit36_def parseInt_eval)

subsection \<open>Updating a record\<close>

text \<open>
  Apart from the amount and the update stamp, a property that the update data leaves out
  keeps the value of the stored record.
\<close>

lemma merge_retains:
  "id' (merge e u now) = id' e \<and> createdAt (merge e u now) = createdAt e \<and>
   (date_u u = None \<longrightarrow> date (merge e u now) = date e) \<and>
   (category_u u = None \<longrightarrow> category (merge e u now) = category e) \<and>
   (memo_u u = None \<longrightarrow> memo (merge e u now) = memo e)"
  by (simp add: merge_def)

text \<open>The amount is always read from the update data; without it, it becomes \<^verbatim>\<open>null\<close>.\<close>

lemma merge_amount:
  "amount (merge e u now) = stringify_number (parseInt (ToString (amount_u u)))"
  by (simp add: merge_def)

lemma merge_amount_missing: "amount_u u = None \<Longrightarrow> amount (merge e u now) = JNull"
  by (simp add: merge_def parseInt_eval)

text \<open>
  C2. An update that leaves out the amount does not keep the stored amount: on the store
  of the two example records, updating only the memo of record \<^verbatim>\<open>a\<close> writes its amount,
  which was 1000, as \<^verbatim>\<open>null\<close>. The other properties are merged as the claim says.
\<close>

theorem updateExpense_without_amount:
  "updateExpense 9 True ''a'' memo_only store =
     (True, store\<lparr>EXPENSES := Some [lunch\<lparr>amount := JNull, memo := Some ''dinner'',
                                          updatedAt := Some 9\<rparr>, train]\<rparr>) \<and>
   map_option amount (getExpenseById ''a'' store) = Some (JNum 1000) \<and>
   map_option amount (getExpenseById ''a'' (snd (updateExpense 9 True ''a'' memo_only store)))
     = Some JNull"
  by (simp add: updateExpense_def getExpenseById_def store_eval store_def lunch_def train_def
      memo_only_def merge_def parseInt_eval)

text \<open>
  C6. For an id that no stored record has, \<^verbatim>\<open>updateExpense\<close> returns \<^verbatim>\<open>false\<close> and
  the store is what it was: nothing is written.
\<close>

theorem updateExpense_not_found:
  assumes "i \<notin> id' ` set (loadExpenses st)"
  shows "updateExpense now ok i updatedData st = (False, st)"
  using assms by (simp add: updateExpense_def findIndex_None [symmetric])

theorem updateExpense_not_found_witness:
  "updateExpense 9 True ''zz'' memo_only store = (False, store)"
proof -
  have "''zz'' \<notin> id' ` set (loadExpenses store)"
    by (simp add: loadExpenses_def store_def lunch_def train_def)
  then show ?thesis
    by (rule updateExpense_not_found)
qed

subsection \<open>Deleting a record\<close>

text \<open>
  C7. \<^verbatim>\<open>deleteExpense\<close> returns \<^verbatim>\<open>true\<close> whether or not a record has the id; when
  its write succeeds, the stored list is the old one without the records of that id, and
  \<^verbatim>\<open>getExpenseById\<close> on the id then returns \<^verbatim>\<open>null\<close>.
\<close>

theorem deleteExpense_idempotent:
  "fst (deleteExpense ok i st) = True \<and>
   loadExpenses (snd (deleteExpense True i st)) =
     filter (\<lambda>e. id' e \<noteq> i) (loadExpenses st) \<and>
   getExpenseById i (snd (deleteExpense True i st)) = None"
  by (simp add: deleteExpense_def getExpenseById_def store_eval find_filter_None)

theorem deleteExpense_idempotent_witness:
  "deleteExpense True ''a'' store = (True, store\<lparr>EXPENSES := Some [train]\<rparr>) \<and>
   getExpenseById ''a'' (snd (deleteExpense True ''a'' store)) = None \<and>
   fst (deleteExpense True ''zz'' store) = True \<and>
   getExpenseById ''1z4fz''
     (snd (deleteExpense True ''1z4fz'' (snd (addExpense 71 ''0.4fz'' 72 True form store))))
     = None"
  using deleteExpense_idempotent [of True "''a''" store]
    deleteExpense_idempotent [of True "''zz''" store]
    deleteExpense_idempotent
      [of True "''1z4fz''" "snd (addExpense 71 ''0.4fz'' 72 True form store)"]
  by (simp add: deleteExpense_def store_eval store_def lunch_def train_def)

subsection \<open>Export and import\<close>

text \<open>
  C9. Whatever the store holds when the user imports, importing the document that
  \<^verbatim>\<open>exportData\<close> produced from a store, with the confirmation given and the three
  writes succeeding, leaves a store that holds the expense list, the category list and
  the settings of the exported store: what was stored under each key, or, for a key
  that was never written, the empty list and the defaults that the export wrote in its
  place.
\<close>

theorem export_import_roundtrip:
  "importData True True True True (Some (exportData stamp st)) st0 =
     \<lparr>EXPENSES = Some (case EXPENSES st of None \<Rightarrow> [] | Some es \<Rightarrow> es),
      CATEGORIES = Some (case CATEGORIES st of None \<Rightarrow> DEFAULT_CATEGORIES | Some cs \<Rightarrow> cs),
      SETTINGS = Some (case SETTINGS st of None \<Rightarrow> DEFAULT_SETTINGS | Some v \<Rightarrow> v)\<rparr>"
  by (simp add: importData_def exportData_def store_eval)

theorem export_import_roundtrip_witness:
  "importData True True True True (Some (exportData ''2024-02-01'' full_store)) store =
     full_store \<and>
   importData True True True True (Some (exportData ''2024-02-01'' empty_store)) full_store =
     \<lparr>EXPENSES = Some [], CATEGORIES = Some DEFAULT_CATEGORIES,
      SETTINGS = Some DEFAULT_SETTINGS\<rparr>"
  using export_import_roundtrip [of "''2024-02-01''" full_store store]
    export_import_roundtrip [of "''2024-02-01''" empty_store full_store]
  by (simp add: full_store_def empty_store_def)

subsection \<open>Filtering\<close>

lemma Array_filter_Inr:
  "Array_filter p xs = Inr ys \<Longrightarrow> ys = filter (\<lambda>x. p x = Inr True) xs"
proof (induction xs arbitrary: ys)
  case Nil
  then show ?case by simp
next
  case (Cons x xs)
  then show ?case
    by (auto split: sum.splits if_splits)
qed

lemma Array_filter_total:
  "\<forall>x\<in>set xs. p x \<noteq> Inl TypeError \<Longrightarrow>
   Array_filter p xs = Inr (filter (\<lambda>x. p x = Inr True) xs)"
proof (induction xs)
  case Nil
  then show ?case by simp
next
  case (Cons x xs)
  then have "p x \<noteq> Inl TypeError" by simp
  then obtain b where "p x = Inr b"
    by (cases "p x") (auto intro: error.exhaust)
  with Cons show ?case by simp
qed

text \<open>
  On a record that has a memo, and on every record when the memo search is off, the
  callback returns whether the record meets all the conditions.
\<close>

lemma keep_with_memo:
  assumes "memo e \<noteq> None \<or> \<not> truthy (searchMemo f)"
  shows "keep f e = Inr (matches f e)"
proof -
  have a: "\<not> (truthy (dateFrom f) \<and> date e < or_empty (dateFrom f))
        \<longleftrightarrow> (truthy (dateFrom f) \<longrightarrow> or_empty (dateFrom f) \<le> date e)"
    by (auto simp: not_less)
  have b: "\<not> (truthy (dateTo f) \<and> or_empty (dateTo f) < date e)
        \<longleftrightarrow> (truthy (dateTo f) \<longrightarrow> date e \<le> or_empty (dateTo f))"
    by (auto simp: not_less)
  have c: "\<not> (truthy (category_f f) \<and> category e \<noteq> or_empty (category_f f))
        \<longleftrightarrow> (truthy (category_f f) \<longrightarrow> category e = or_empty (category_f f))"
    by auto
  have d: "\<not> (case amountMin f of None \<Rightarrow> False | Some lo \<Rightarrow> ToNumber (amount e) < lo)
        \<longleftrightarrow> (case amountMin f of None \<Rightarrow> True | Some lo \<Rightarrow> lo \<le> ToNumber (amount e))"
    by (simp add: not_less split: option.split)
  have e: "\<not> (case amountMax f of None \<Rightarrow> False | Some hi \<Rightarrow> hi < ToNumber (amount e))
        \<longleftrightarrow> (case amountMax f of None \<Rightarrow> True | Some hi \<Rightarrow> ToNumber (amount e) \<le> hi)"
    by (simp add: not_less split: option.split)
  have m: "(if truthy (searchMemo f)
            then (case memo e of
                    None \<Rightarrow> Inl TypeError
                  | Some m \<Rightarrow> Inr (String_includes (toLowerCase m)
                                     (toLowerCase (or_empty (searchMemo f)))))
            else Inr True)
         = Inr (truthy (searchMemo f) \<longrightarrow>
                  String_includes (toLowerCase (or_empty (memo e)))
                    (toLowerCase (or_empty (searchMemo f))))"
    using assms by (cases "memo e") auto
  show ?thesis
    unfolding keep_def matches_def m a [symmetric] b [symmetric] c [symmetric]
      d [symmetric] e [symmetric]
    by (simp only: if_distrib [of Inr] split: if_split) blast
qed

text \<open>
  So the filter is the conjunction of its conditions on every list whose records have a
  memo, and with no condition set it returns its input.
\<close>

lemma filterExpenses_matches:
  assumes "\<forall>e\<in>set es. memo e \<noteq> None \<or> \<not> truthy (searchMemo f)"
  shows "filterExpenses es f = Inr (filter (matches f) es)"
proof -
  have k: "\<forall>e\<in>set es. keep f e = Inr (matches f e)"
    using assms keep_with_memo by blast
  then have "\<forall>e\<in>set es. keep f e \<noteq> Inl TypeError" by simp
  then have "filterExpenses es f = Inr (filter (\<lambda>e. keep f e = Inr True) es)"
    unfolding filterExpenses_def by (rule Array_filter_total)
  moreover have "filter (\<lambda>e. keep f e = Inr True) es = filter (matches f) es"
    using k by (intro filter_cong) auto
  ultimately show ?thesis by simp
qed

lemma filterExpenses_no_filters:
  "filterExpenses es \<lparr>dateFrom = None, dateTo = None, category_f = None, amountMin = None,
      amountMax = None, searchMemo = None\<rparr> = Inr es"
  by (simp add: filterExpenses_matches matches_def)

text \<open>
  C1. The filter does not return the records that meet all conditions on every list: on
  the two example records, of which the second has no memo, the memo search for
  \<^verbatim>\<open>lun\<close> throws a \<^verbatim>\<open>TypeError\<close>, where the records that meet the condition are the
  first one alone.
\<close>

theorem filterExpenses_throws_where_matches_exist:
  "filterExpenses [lunch, train] (search ''lun'') = Inl TypeError \<and>
   filter (matches (search ''lun'')) [lunch, train] = [lunch]"
  by (simp add: filterExpenses_def keep_def matches_def search_def lunch_def train_def
      lower_eval)

theorem filterExpenses_throws_where_matches_exist_witness:
  "filterExpenses [lunch, train] (search ''lun'')
     \<noteq> Inr (filter (matches (search ''lun'')) [lunch, train])"
  using filterExpenses_throws_where_matches_exist by simp

text \<open>
  C3. A record without a memo is not read as having the empty memo: with the memo search
  set, the filter throws a \<^verbatim>\<open>TypeError\<close> on it, where the same record with the empty
  memo is filtered out without an error.
\<close>

theorem filterExpenses_missing_memo_raises:
  "filterExpenses [train] (search ''x'') = Inl TypeError \<and>
   filterExpenses [train\<lparr>memo := Some []\<rparr>] (search ''x'') = Inr []"
  by (simp add: filterExpenses_def keep_def search_def train_def lower_eval)

text \<open>
  C10. The output of \<^verbatim>\<open>filterExpenses\<close> is a subsequence of its input: the records on
  which the callback returned \<^verbatim>\<open>true\<close>, each as often as it stands in the input and in
  the order of the input. There is no output only where the memo search is set and a
  record of the input has no memo.
\<close>

theorem filterExpenses_subseq:
  "case filterExpenses es f of
     Inl err \<Rightarrow> truthy (searchMemo f) \<and> None \<in> memo ` set es
   | Inr rs \<Rightarrow>
       subseq rs es \<and> rs = filter (\<lambda>e. keep f e = Inr True) es \<and> mset rs \<subseteq># mset es"
proof (cases "filterExpenses es f")
  case (Inl err)
  have "\<not> (\<forall>e\<in>set es. memo e \<noteq> None \<or> \<not> truthy (searchMemo f))"
  proof
    assume "\<forall>e\<in>set es. memo e \<noteq> None \<or> \<not> truthy (searchMemo f)"
    then have "filterExpenses es f = Inr (filter (matches f) es)"
      by (rule filterExpenses_matches)
    with Inl show False by simp
  qed
  then obtain e where "e \<in> set es" "memo e = None" "truthy (searchMemo f)"
    by blast
  then have "truthy (searchMemo f) \<and> None \<in> memo ` set es"
    by force
  with Inl show ?thesis by simp
next
  case (Inr rs)
  then have "rs = filter (\<lambda>e. keep f e = Inr True) es"
    unfolding filterExpenses_def by (rule Array_filter_Inr)
  with Inr show ?thesis by simp
qed

theorem filterExpenses_subseq_witness:
  "filterExpenses [lunch, train] only_transport = Inr [train] \<and> subseq [train] [lunch, train]"
proof -
  have r: "filterExpenses [lunch, train] only_transport = Inr [train]"
    by (simp add: filterExpenses_def keep_def only_transport_def lunch_def train_def)
  show ?thesis
    using filterExpenses_subseq [of only_transport "[lunch, train]"] r by simp
qed

subsection \<open>Sorting\<close>
























subsection \<open>Category statistics\<close>



























end
